theory Spec2Isabelle
  imports Main
begin

section \<open>Data model (types.ts)\<close>

text \<open>
  The engine of the Tetris clone is a pure reducer over an immutable \<open>State\<close>.
  Numbers of the source are JavaScript numbers; every counter and coordinate of the
  engine is an integer, and is modelled as \<open>int\<close> (exact while magnitudes stay
  below \<open>2^53\<close>). The one place where ordinary play leaves that range, the
  product inside \<open>RNG.hash\<close>, is modelled with its rounding written out.
\<close>

datatype Colour = Yellow | Blue | Orange | Red | Green | Purple | Cyan

record Cube =
  cube_x :: int
  cube_y :: int
  colour :: Colour
  cube_id :: string

type_synonym Cubes = "Cube list"
type_synonym Grid = "Cubes list"

record State =
  gameTick :: int
  currentTick :: int
  dropTick :: int
  currentCubes :: Cubes
  mainGridCubes :: Cubes
  previousMainGridCubes :: Cubes
  previewGridCubes :: Cubes
  holdOnCooldown :: bool
  updateGrid :: bool
  rng :: int
  level :: int
  score :: int
  linesCleared :: int
  highScore :: int
  gameEnd :: bool

text \<open>
  Reading element 0 of an empty array and calling an entry of the tetromino table that
  does not exist both raise a \<open>TypeError\<close> in the source.
\<close>

datatype error = TypeError

section \<open>Constants\<close>

abbreviation (input) GRID_WIDTH :: int where "GRID_WIDTH \<equiv> 10"
abbreviation (input) GRID_HEIGHT :: int where "GRID_HEIGHT \<equiv> 20"
abbreviation (input) MAIN_GRID_X :: int where "MAIN_GRID_X \<equiv> 4"
abbreviation (input) MAIN_GRID_Y :: int where "MAIN_GRID_Y \<equiv> - 2"
abbreviation (input) PREVIEW_GRID_X :: int where "PREVIEW_GRID_X \<equiv> 3"
abbreviation (input) PREVIEW_GRID_Y :: int where "PREVIEW_GRID_Y \<equiv> 1"
abbreviation (input) MAX_SCORE_PER_LEVEL :: int where "MAX_SCORE_PER_LEVEL \<equiv> 1000"
abbreviation (input) INITIAL_DROP_TICK :: int where "INITIAL_DROP_TICK \<equiv> 500"
abbreviation (input) BASE_TICK_RATE_MS :: int where "BASE_TICK_RATE_MS \<equiv> 10"

section \<open>Number formatting of the template strings\<close>

fun digits10 :: "nat \<Rightarrow> string" where
  "digits10 n =
     (if n < 10 then [''0123456789'' ! n]
      else digits10 (n div 10) @ [''0123456789'' ! (n mod 10)])"

declare digits10.simps [simp del]

definition toString :: "int \<Rightarrow> string" where
  "toString i = (if i < 0 then CHR ''-'' # digits10 (nat (- i)) else digits10 (nat i))"

text \<open>The template \<open>`x${x}y${y}`\<close>.\<close>

definition coordId :: "int \<Rightarrow> int \<Rightarrow> string" where
  "coordId px py = ''x'' @ toString px @ ''y'' @ toString py"

section \<open>utils.ts: the generator and the piece factory\<close>

text \<open>
  A JavaScript number is an IEEE-754 double: an integer of more than 53 significant
  bits is rounded to the nearest double, ties to the even significand.
  \<open>roundDouble\<close> is that rounding on integers (overflow to infinity, beyond
  \<open>2^1024\<close>, is not modelled).
\<close>

function bitLength :: "int \<Rightarrow> nat" where
  "bitLength n = (if n \<le> 0 then 0 else Suc (bitLength (n div 2)))"
  by pat_completeness auto
termination
  by (relation "measure nat") auto

declare bitLength.simps [simp del]

definition roundDouble :: "int \<Rightarrow> int" where
  "roundDouble n =
     (let a = \<bar>n\<bar>; e = bitLength a - 53
      in if e = 0 then n
         else let q = a div 2 ^ e; r = a mod 2 ^ e; h = 2 ^ (e - 1);
                  q' = (if r > h \<or> (r = h \<and> odd q) then q + 1 else q)
              in sgn n * (q' * 2 ^ e))"

text \<open>The remainder operator \<open>%\<close> of JavaScript takes the sign of the dividend.\<close>

definition jsRem :: "int \<Rightarrow> int \<Rightarrow> int" where
  "jsRem a b = sgn a * (\<bar>a\<bar> mod \<bar>b\<bar>)"

abbreviation (input) RNG_m :: int where "RNG_m \<equiv> 2147483648"
abbreviation (input) RNG_a :: int where "RNG_a \<equiv> 1103515245"
abbreviation (input) RNG_c :: int where "RNG_c \<equiv> 12345"

text \<open>\<open>RNG.hash = (seed) => (RNG.a * seed + RNG.c) % RNG.m\<close>, in double arithmetic.\<close>

definition hash :: "int \<Rightarrow> int" where
  "hash seed = jsRem (roundDouble (roundDouble (RNG_a * seed) + RNG_c)) RNG_m"

text \<open>\<open>RNG.scale = (hash) => hash % 7\<close>.\<close>

definition scale :: "int \<Rightarrow> int" where
  "scale h = jsRem h 7"

definition createTetromino :: "Colour \<Rightarrow> (int \<times> int) list \<Rightarrow> string \<Rightarrow> Cubes" where
  "createTetromino col coordinates grp =
     [ \<lparr>cube_x = fst (coordinates ! 0), cube_y = snd (coordinates ! 0), colour = col, cube_id = grp @ ''1''\<rparr>,
       \<lparr>cube_x = fst (coordinates ! 1), cube_y = snd (coordinates ! 1), colour = col, cube_id = grp @ ''2''\<rparr>,
       \<lparr>cube_x = fst (coordinates ! 2), cube_y = snd (coordinates ! 2), colour = col, cube_id = grp @ ''3''\<rparr>,
       \<lparr>cube_x = fst (coordinates ! 3), cube_y = snd (coordinates ! 3), colour = col, cube_id = grp @ ''4''\<rparr> ]"

definition createYellowTetromino :: "int \<Rightarrow> int \<Rightarrow> string \<Rightarrow> Cubes" where
  "createYellowTetromino px py =
     createTetromino Yellow [(px, py), (px + 1, py), (px, py + 1), (px + 1, py + 1)]"

definition createBlueTetromino :: "int \<Rightarrow> int \<Rightarrow> string \<Rightarrow> Cubes" where
  "createBlueTetromino px py =
     createTetromino Blue [(px, py + 1), (px + 1, py + 1), (px - 1, py + 1), (px - 1, py)]"

definition createOrangeTetromino :: "int \<Rightarrow> int \<Rightarrow> string \<Rightarrow> Cubes" where
  "createOrangeTetromino px py =
     createTetromino Orange [(px, py + 1), (px + 1, py + 1), (px - 1, py + 1), (px + 1, py)]"

definition createRedTetromino :: "int \<Rightarrow> int \<Rightarrow> string \<Rightarrow> Cubes" where
  "createRedTetromino px py =
     createTetromino Red [(px, py), (px - 1, py), (px, py + 1), (px + 1, py + 1)]"

definition createGreenTetromino :: "int \<Rightarrow> int \<Rightarrow> string \<Rightarrow> Cubes" where
  "createGreenTetromino px py =
     createTetromino Green [(px, py), (px + 1, py), (px, py + 1), (px - 1, py + 1)]"

definition createPurpleTetromino :: "int \<Rightarrow> int \<Rightarrow> string \<Rightarrow> Cubes" where
  "createPurpleTetromino px py =
     createTetromino Purple [(px, py + 1), (px + 1, py + 1), (px - 1, py + 1), (px, py)]"

definition createCyanTetromino :: "int \<Rightarrow> int \<Rightarrow> string \<Rightarrow> Cubes" where
  "createCyanTetromino px py =
     createTetromino Cyan [(px, py), (px - 1, py), (px + 1, py), (px + 2, py)]"

text \<open>
  \<open>tetrominos[RNG.scale(index)](x, y)\<close>: the table has the entries 0 to 6; any other
  index yields \<open>undefined\<close>, and calling it raises.
\<close>

definition generateTetromino :: "int \<Rightarrow> int \<Rightarrow> int \<Rightarrow> string \<Rightarrow> error + Cubes" where
  "generateTetromino index px py grp =
     (let k = scale index in
      if k = 0 then Inr (createYellowTetromino px py grp)
      else if k = 1 then Inr (createBlueTetromino px py grp)
      else if k = 2 then Inr (createOrangeTetromino px py grp)
      else if k = 3 then Inr (createRedTetromino px py grp)
      else if k = 4 then Inr (createGreenTetromino px py grp)
      else if k = 5 then Inr (createPurpleTetromino px py grp)
      else if k = 6 then Inr (createCyanTetromino px py grp)
      else Inl TypeError)"

fun indexOf :: "'a list \<Rightarrow> 'a \<Rightarrow> int" where
  "indexOf [] v = - 1"
| "indexOf (u # us) v = (if u = v then 0 else (let i = indexOf us v in if i < 0 then - 1 else i + 1))"

definition findIndexByColour :: "Colour \<Rightarrow> int" where
  "findIndexByColour col = indexOf [Yellow, Blue, Orange, Red, Green, Purple, Cyan] col"

text \<open>\<open>range(start, end)\<close>: the integers from start to end inclusive, empty when end < start.\<close>

definition range_list :: "int \<Rightarrow> int \<Rightarrow> int list" where
  "range_list start end = map (\<lambda>i. start + int i) [0 ..< nat (end - start + 1)]"

section \<open>state.ts: geometry and collision\<close>

definition isCollide :: "State \<Rightarrow> bool" where
  "isCollide s =
     (length (filter (\<lambda>cube.
        length (filter (\<lambda>mainCube. cube_x mainCube = cube_x cube \<and> cube_y mainCube = cube_y cube)
                  (mainGridCubes s)) > 0
        \<or> cube_y cube \<ge> GRID_HEIGHT) (currentCubes s)) > 0)"

definition isOutOfBound :: "State \<Rightarrow> bool" where
  "isOutOfBound s =
     (length (filter (\<lambda>cube. cube_x cube < 0 \<or> cube_x cube \<ge> GRID_WIDTH \<or> cube_y cube \<ge> GRID_HEIGHT)
        (currentCubes s)) > 0)"

definition isValid :: "State \<Rightarrow> bool" where
  "isValid s = (\<not> isCollide s \<and> \<not> isOutOfBound s \<and> \<not> gameEnd s)"

definition generateNewCubes :: "Cubes \<Rightarrow> int \<Rightarrow> int \<Rightarrow> bool \<Rightarrow> Cubes" where
  "generateNewCubes cubes relativeX relativeY newId =
     map (\<lambda>cube. \<lparr>cube_x = cube_x cube + relativeX,
                  cube_y = cube_y cube + relativeY,
                  colour = colour cube,
                  cube_id = (if newId then coordId (cube_x cube + relativeX) (cube_y cube + relativeY)
                             else cube_id cube)\<rparr>) cubes"

definition convertTo2D :: "Cubes \<Rightarrow> Grid" where
  "convertTo2D cubes =
     foldl (\<lambda>grid cube.
              map (\<lambda>(index, row). if int index = cube_y cube then row @ [cube] else row)
                  (List.enumerate 0 grid))
           (replicate (nat GRID_HEIGHT) []) cubes"

definition findLinesToClear :: "Grid \<Rightarrow> int list" where
  "findLinesToClear grid =
     filter (\<lambda>row. row \<noteq> - 1)
       (map (\<lambda>row. if int (length row) = GRID_WIDTH then cube_y (row ! 0) else - 1) grid)"

definition clearLines :: "Cubes \<Rightarrow> int \<Rightarrow> Cubes" where
  "clearLines cubes line =
     map (\<lambda>cube. if cube_y cube \<le> line
                 then cube\<lparr>cube_y := cube_y cube + 1, cube_id := coordId (cube_x cube) (cube_y cube + 1)\<rparr>
                 else cube)
         (filter (\<lambda>cube. cube_y cube \<noteq> line) cubes)"

definition shouldUpdateGrid :: "State \<Rightarrow> bool" where
  "shouldUpdateGrid s = ((isCollide s \<or> length (currentCubes s) = 0) \<and> \<not> gameEnd s)"

definition findMinMaxNum :: "int \<times> int \<Rightarrow> int \<Rightarrow> int \<times> int" where
  "findMinMaxNum minMaxArr num =
     (let minNum = (if fst minMaxArr < num then fst minMaxArr else num);
          maxNum = (if snd minMaxArr > num then snd minMaxArr else num)
      in (minNum, maxNum))"

definition calculateRotation :: "int \<times> int \<Rightarrow> int \<times> int \<Rightarrow> int \<times> int" where
  "calculateRotation pivotPointPos currentPos =
     (let relativeX = fst currentPos - fst pivotPointPos;
          relativeY = snd currentPos - snd pivotPointPos;
          rotatedX = - relativeY;
          rotatedY = relativeX
      in (fst pivotPointPos + rotatedX, snd pivotPointPos + rotatedY))"

section \<open>state.ts: the actions\<close>

text \<open>
  \<open>calculateDropTick(level) = Math.round(500 * 5 ** (-0.1 * (level - 1)) / 10)\<close> is
  computed in floating point with a fractional power. It is not modelled: the transition
  functions that use it take it as the parameter \<open>cdt\<close>, and every statement below holds
  for every such function. Where a concrete run needs one, only level 1 occurs, where the
  source yields \<open>Math.round(500 * 1 / 10) = 50\<close>.
\<close>

definition dropTickLevel1 :: "int \<Rightarrow> int" where
  "dropTickLevel1 lvl = 50"

text \<open>
  The spawn of the next piece, as both \<open>GameTick\<close> and \<open>HardDrop\<close> write it:
  \<open>generateTetromino(findIndexByColour(s.previewGridCubes[0].colour), MAIN_GRID_X, MAIN_GRID_Y)('c')\<close>
  and \<open>generateTetromino(RNG.scale(s.rng), PREVIEW_GRID_X, PREVIEW_GRID_Y)('p')\<close>.
\<close>

definition spawnCurrent :: "State \<Rightarrow> error + Cubes" where
  "spawnCurrent s =
     (case previewGridCubes s of
        [] \<Rightarrow> Inl TypeError
      | p # ps \<Rightarrow> generateTetromino (findIndexByColour (colour p)) MAIN_GRID_X MAIN_GRID_Y ''c'')"

definition spawnPreview :: "State \<Rightarrow> error + Cubes" where
  "spawnPreview s = generateTetromino (scale (rng s)) PREVIEW_GRID_X PREVIEW_GRID_Y ''p''"

definition GameTick_apply :: "State \<Rightarrow> error + State" where
  "GameTick_apply s =
     (let newCubes = generateNewCubes (currentCubes s) 0 1 False;
          newState = s\<lparr>currentCubes := newCubes\<rparr>;
          updatedID = generateNewCubes (currentCubes s) 0 0 True;
          updatedMainGridCubes =
            (if isCollide newState then mainGridCubes s @ updatedID else mainGridCubes s);
          mainGridCubes2D = convertTo2D updatedMainGridCubes;
          linesToClear = findLinesToClear mainGridCubes2D;
          finalMainGridCubes =
            (if length linesToClear > 0 then foldl clearLines updatedMainGridCubes linesToClear
             else updatedMainGridCubes);
          newScore = score s + int (length linesToClear) * 100;
          gameOver = (length (filter (\<lambda>cube. cube_y cube < 0) finalMainGridCubes) > 0);
          result = (\<lambda>cur prev.
            s\<lparr>gameTick := gameTick s + 1,
              currentCubes := cur,
              mainGridCubes := (if gameEnd s then mainGridCubes s else finalMainGridCubes),
              previousMainGridCubes := mainGridCubes s,
              previewGridCubes := prev,
              holdOnCooldown := (if shouldUpdateGrid newState then False else holdOnCooldown s),
              updateGrid := shouldUpdateGrid newState,
              rng := (if shouldUpdateGrid newState then hash (rng s) else rng s),
              level := newScore div MAX_SCORE_PER_LEVEL + 1,
              score := newScore,
              linesCleared := linesCleared s + int (length linesToClear),
              highScore := (if highScore s < newScore then newScore else highScore s),
              gameEnd := gameOver\<rparr>)
      in if shouldUpdateGrid newState
         then (case spawnCurrent s of
                 Inl e \<Rightarrow> Inl e
               | Inr cur \<Rightarrow> (case spawnPreview s of
                                Inl e \<Rightarrow> Inl e
                              | Inr prev \<Rightarrow> Inr (result cur prev)))
         else Inr (result newCubes (previewGridCubes s)))"

definition Tick_apply :: "(int \<Rightarrow> int) \<Rightarrow> State \<Rightarrow> error + State" where
  "Tick_apply cdt s =
     (let newCurrentTick = (if currentTick s + 1 = dropTick s then 0 else currentTick s + 1);
          newState = (if newCurrentTick = 0
                      then s\<lparr>currentTick := newCurrentTick, dropTick := cdt (level s), updateGrid := False\<rparr>
                      else s\<lparr>currentTick := newCurrentTick, updateGrid := False\<rparr>)
      in if newCurrentTick = 0 then GameTick_apply newState else Inr newState)"

definition MoveLeft_apply :: "State \<Rightarrow> State" where
  "MoveLeft_apply s =
     (let newCubes = generateNewCubes (currentCubes s) (- 1) 0 False;
          newState = s\<lparr>currentCubes := newCubes\<rparr>
      in s\<lparr>currentCubes := (if isValid newState then newCubes else currentCubes s),
           updateGrid := False\<rparr>)"

definition MoveRight_apply :: "State \<Rightarrow> State" where
  "MoveRight_apply s =
     (let newCubes = generateNewCubes (currentCubes s) 1 0 False;
          newState = s\<lparr>currentCubes := newCubes\<rparr>
      in s\<lparr>currentCubes := (if isValid newState then newCubes else currentCubes s),
           updateGrid := False\<rparr>)"

definition MoveDown_apply :: "State \<Rightarrow> State" where
  "MoveDown_apply s =
     (let newCubes = generateNewCubes (currentCubes s) 0 1 False;
          newState = s\<lparr>currentCubes := newCubes\<rparr>
      in s\<lparr>currentCubes := (if isValid newState then newCubes else currentCubes s),
           updateGrid := False\<rparr>)"

text \<open>The wall kick of \<open>Rotate\<close>: the horizontal shift computed from the rotated cells.\<close>

definition minMaxX :: "Cubes \<Rightarrow> int \<times> int" where
  "minMaxX cubes = foldl (\<lambda>acc cube. findMinMaxNum acc (cube_x cube)) (GRID_WIDTH, - 1) cubes"

definition Rotate_apply :: "State \<Rightarrow> State" where
  "Rotate_apply s =
     (if length (currentCubes s) = 0 \<or> colour (currentCubes s ! 0) = Yellow then s
      else
        let initialPos = (cube_x (currentCubes s ! 0), cube_y (currentCubes s ! 0));
            newCubes = map (\<lambda>cube.
               let newRotation = calculateRotation initialPos (cube_x cube, cube_y cube)
               in \<lparr>cube_x = fst newRotation, cube_y = snd newRotation,
                   colour = colour cube, cube_id = cube_id cube\<rparr>) (currentCubes s);
            (minX, maxX) = minMaxX newCubes;
            relativeX = (if minX < 0 then - minX
                         else if maxX \<ge> GRID_WIDTH then GRID_WIDTH - maxX - 1
                         else 0);
            adjustedCubes = generateNewCubes newCubes relativeX 0 False;
            newState = s\<lparr>currentCubes := adjustedCubes\<rparr>;
            finalCubes = (if isCollide newState then currentCubes s else adjustedCubes)
        in s\<lparr>currentCubes := finalCubes, updateGrid := False\<rparr>)"

text \<open>
  The drop distance of \<open>HardDrop\<close>. \<open>highestCurrentYs[x - minX]\<close> read out of range is
  \<open>undefined\<close>, and a comparison with it is false.
\<close>

definition highestCurrentYs :: "State \<Rightarrow> int list" where
  "highestCurrentYs s =
     (let (minX, maxX) = minMaxX (currentCubes s);
          currentCubesInRange =
            map (\<lambda>px. filter (\<lambda>cube. cube_x cube = px) (currentCubes s)) (range_list minX maxX)
      in map (\<lambda>cubeArr. foldl (\<lambda>acc cube. if cube_y cube > acc then cube_y cube else acc)
                               MAIN_GRID_Y cubeArr) currentCubesInRange)"

definition lowestGridYs :: "State \<Rightarrow> int list" where
  "lowestGridYs s =
     (let (minX, maxX) = minMaxX (currentCubes s);
          gridCubesInRange =
            map (\<lambda>px. filter (\<lambda>cube. cube_x cube = px) (mainGridCubes s)) (range_list minX maxX)
      in map (\<lambda>cubeArr.
                foldl (\<lambda>acc cube.
                         let i = cube_x cube - minX
                         in if cube_y cube < acc \<and> 0 \<le> i \<and> nat i < length (highestCurrentYs s)
                               \<and> cube_y cube > highestCurrentYs s ! nat i
                            then cube_y cube else acc)
                      GRID_HEIGHT cubeArr) gridCubesInRange)"

definition relativeY :: "State \<Rightarrow> int" where
  "relativeY s =
     foldl (\<lambda>acc (py, index).
              let newY = py - highestCurrentYs s ! index - 1
              in if newY < acc then newY else acc)
           GRID_HEIGHT (zip (lowestGridYs s) [0 ..< length (lowestGridYs s)])"

definition HardDrop_apply :: "State \<Rightarrow> error + State" where
  "HardDrop_apply s =
     (let newCubes = generateNewCubes (currentCubes s) 0 (relativeY s) True;
          updatedMainGridCubes = mainGridCubes s @ newCubes;
          mainGridCubes2D = convertTo2D updatedMainGridCubes;
          linesToClear = findLinesToClear mainGridCubes2D;
          finalMainGridCubes =
            (if length linesToClear > 0 then foldl clearLines updatedMainGridCubes linesToClear
             else updatedMainGridCubes);
          newScore = score s + int (length linesToClear) * 100;
          gameOver = (length (filter (\<lambda>cube. cube_y cube < 0) finalMainGridCubes) > 0)
      in case spawnCurrent s of
           Inl e \<Rightarrow> Inl e
         | Inr cur \<Rightarrow>
            (case spawnPreview s of
               Inl e \<Rightarrow> Inl e
             | Inr prev \<Rightarrow>
                Inr (s\<lparr>currentCubes := cur,
                       mainGridCubes := (if gameEnd s then mainGridCubes s else finalMainGridCubes),
                       previousMainGridCubes := mainGridCubes s,
                       previewGridCubes := prev,
                       holdOnCooldown := False,
                       updateGrid := True,
                       rng := hash (rng s),
                       level := newScore div MAX_SCORE_PER_LEVEL + 1,
                       score := newScore,
                       linesCleared := linesCleared s + int (length linesToClear),
                       highScore := (if highScore s < newScore then newScore else highScore s),
                       gameEnd := gameOver\<rparr>)))"

definition Reset_apply :: "State \<Rightarrow> State" where
  "Reset_apply s =
     (if gameEnd s
      then s\<lparr>gameTick := 0,
             currentTick := 0,
             currentCubes := [],
             mainGridCubes := [],
             previousMainGridCubes := mainGridCubes s,
             previewGridCubes := previewGridCubes s,
             updateGrid := False,
             level := 1,
             score := 0,
             linesCleared := 0,
             gameEnd := False\<rparr>
      else s)"

text \<open>The seven exported actions, and \<open>reduceState = (s, a) => a.apply(s)\<close>.\<close>

datatype Action = Tick | MoveLeft | MoveRight | MoveDown | Rotate | HardDrop | Reset

fun reduceState :: "(int \<Rightarrow> int) \<Rightarrow> State \<Rightarrow> Action \<Rightarrow> error + State" where
  "reduceState cdt s Tick = Tick_apply cdt s"
| "reduceState cdt s MoveLeft = Inr (MoveLeft_apply s)"
| "reduceState cdt s MoveRight = Inr (MoveRight_apply s)"
| "reduceState cdt s MoveDown = Inr (MoveDown_apply s)"
| "reduceState cdt s Rotate = Inr (Rotate_apply s)"
| "reduceState cdt s HardDrop = HardDrop_apply s"
| "reduceState cdt s Reset = Inr (Reset_apply s)"

text \<open>
  The fold of the action stream (\<open>scan(reduceState, initialState)\<close>); a raised error
  ends the run.
\<close>

fun run :: "(int \<Rightarrow> int) \<Rightarrow> error + State \<Rightarrow> Action list \<Rightarrow> error + State" where
  "run cdt r [] = r"
| "run cdt (Inl e) (a # as) = Inl e"
| "run cdt (Inr s) (a # as) = run cdt (reduceState cdt s a) as"

text \<open>
  The bootstrap state, for the seed \<open>initialRNG = Math.round(RNG.hash(Math.random() * 1000))\<close>
  drawn at start-up.
\<close>

definition initialState :: "int \<Rightarrow> error + State" where
  "initialState initialRNG =
     (case generateTetromino initialRNG PREVIEW_GRID_X PREVIEW_GRID_Y ''p'' of
        Inl e \<Rightarrow> Inl e
      | Inr prev \<Rightarrow>
          Inr \<lparr>gameTick = 0,
               currentTick = 0,
               dropTick = INITIAL_DROP_TICK div BASE_TICK_RATE_MS,
               currentCubes = [],
               mainGridCubes = [],
               previousMainGridCubes = [],
               previewGridCubes = prev,
               holdOnCooldown = False,
               updateGrid = False,
               rng = hash initialRNG,
               level = 1,
               score = 0,
               linesCleared = 0,
               highScore = 0,
               gameEnd = False\<rparr>)"


section \<open>Specification-level definitions and concrete inputs\<close>

text \<open>
  The drop distance as the specification words it: per occupied column, the free fall of
  the piece's lowest cell of that column down to the floor \<open>y = GRID_HEIGHT\<close> or to the
  highest settled cell of that column below it; then the minimum over the occupied
  columns. (Rows grow downwards: the lowest cell has the greatest \<open>y\<close>, the highest
  settled cell the least.)
\<close>

definition specColumnFall :: "Cubes \<Rightarrow> Cubes \<Rightarrow> int \<Rightarrow> int" where
  "specColumnFall piece settled px =
     (let lowest = Max (set (map cube_y (filter (\<lambda>c. cube_x c = px) piece)));
          stops = GRID_HEIGHT # map cube_y (filter (\<lambda>m. cube_x m = px \<and> cube_y m > lowest) settled)
      in Min (set stops) - lowest - 1)"

definition specHardDropDistance :: "Cubes \<Rightarrow> Cubes \<Rightarrow> int" where
  "specHardDropDistance piece settled =
     Min (set (map (specColumnFall piece settled) (map cube_x piece)))"

text \<open>
  A first play: fifty timer ticks from the bootstrap state make the first automatic drop,
  which spawns the first piece.
\<close>

definition firstSpawnActions :: "Action list" where
  "firstSpawnActions = replicate 50 Tick"

text \<open>
  A second play. Two flat cyan pieces are laid on row 19 (columns 0 to 3 and 6 to 9),
  five upright cyan pieces are stacked on column 0, the fifth one reaching row \<open>-1\<close>,
  which ends the game; the last action is one more hard drop, in the game-over state.
\<close>

definition towerActions :: "Action list" where
  "towerActions =
     replicate 50 Tick
     @ [MoveLeft, MoveLeft, MoveLeft, MoveDown, HardDrop]
     @ [MoveRight, MoveRight, MoveRight, MoveDown, HardDrop]
     @ concat (replicate 5 [Rotate, MoveLeft, MoveLeft, MoveLeft, MoveLeft, HardDrop])"

definition reviveActions :: "Action list" where
  "reviveActions = towerActions @ [HardDrop]"

text \<open>
  Two concrete states. \<open>gameOverState\<close>: the game is over, a red piece has just been
  spawned and the render hint is set. \<open>playState\<close>: the same with a running game and one
  settled cell on the floor.
\<close>

definition gameOverState :: State where
  "gameOverState =
     \<lparr>gameTick = 7, currentTick = 3, dropTick = 50,
      currentCubes = createRedTetromino MAIN_GRID_X MAIN_GRID_Y ''c'',
      mainGridCubes = [\<lparr>cube_x = 0, cube_y = - 1, colour = Cyan, cube_id = ''x0y-1''\<rparr>],
      previousMainGridCubes = [],
      previewGridCubes = createCyanTetromino PREVIEW_GRID_X PREVIEW_GRID_Y ''p'',
      holdOnCooldown = False, updateGrid = True, rng = 5,
      level = 1, score = 300, linesCleared = 3, highScore = 300, gameEnd = True\<rparr>"

definition playState :: State where
  "playState =
     gameOverState\<lparr>mainGridCubes := [\<lparr>cube_x = 0, cube_y = 19, colour = Cyan, cube_id = ''x0y19''\<rparr>],
                   gameEnd := False\<rparr>"



text \<open>
  Translation and valid placement as the specification words them: a per-cell shift that
  keeps colour and identity; a placement is valid when no cell of the piece coincides with
  a settled cell, every cell is inside the side walls and above the floor, and the game
  is not over.
\<close>

definition specTranslate :: "int \<Rightarrow> int \<Rightarrow> Cubes \<Rightarrow> Cubes" where
  "specTranslate dx dy piece =
     map (\<lambda>c. c\<lparr>cube_x := cube_x c + dx, cube_y := cube_y c + dy\<rparr>) piece"

definition specValidPlacement :: "Cubes \<Rightarrow> Cubes \<Rightarrow> bool \<Rightarrow> bool" where
  "specValidPlacement piece settled over =
     ((\<forall>c \<in> set piece.
         (\<forall>m \<in> set settled. \<not> (cube_x m = cube_x c \<and> cube_y m = cube_y c)) \<and>
         0 \<le> cube_x c \<and> cube_x c < GRID_WIDTH \<and> cube_y c < GRID_HEIGHT)
      \<and> \<not> over)"

text \<open>
  The coordinate of a cell, the invariant that no two cells of a grid share a coordinate,
  and the number of cells of a grid on a row.
\<close>

definition coordOf :: "Cube \<Rightarrow> int \<times> int" where
  "coordOf c = (cube_x c, cube_y c)"

definition noDuplicateCoords :: "Cubes \<Rightarrow> bool" where
  "noDuplicateCoords cubes = distinct (map coordOf cubes)"

definition rowCount :: "Cubes \<Rightarrow> int \<Rightarrow> nat" where
  "rowCount cubes l = length (filter (\<lambda>c. cube_y c = l) cubes)"

text \<open>
  The collapse of several full rows as the specification words it: the cells of the
  rows \<open>ls\<close> are removed; every other cell moves down by the number of those rows that
  lie below it, and a cell that moves gets its identity from its new coordinates.
\<close>

definition specCollapse :: "int list \<Rightarrow> Cubes \<Rightarrow> Cubes" where
  "specCollapse ls cubes =
     map (\<lambda>c. let k = int (length (filter (\<lambda>l. cube_y c < l) ls))
               in if k = 0 then c
                  else c\<lparr>cube_y := cube_y c + k, cube_id := coordId (cube_x c) (cube_y c + k)\<rparr>)
         (filter (\<lambda>c. cube_y c \<notin> set ls) cubes)"

text \<open>
  A grid with two full rows (17 and 19), one cell between them and one cell above.
\<close>

definition fullRow :: "int \<Rightarrow> Cubes" where
  "fullRow py = map (\<lambda>px. \<lparr>cube_x = px, cube_y = py, colour = Cyan, cube_id = coordId px py\<rparr>)
                    (range_list 0 (GRID_WIDTH - 1))"

definition twoFullRowsGrid :: Cubes where
  "twoFullRowsGrid =
     fullRow 17 @ [\<lparr>cube_x = 3, cube_y = 18, colour = Red, cube_id = ''x3y18''\<rparr>] @ fullRow 19
     @ [\<lparr>cube_x = 5, cube_y = 16, colour = Blue, cube_id = ''x5y16''\<rparr>]"

text \<open>
  The settled grid after the merge (\<open>updatedMainGridCubes\<close> in the source), in
  \<open>GameTick\<close> and in \<open>HardDrop\<close>.
\<close>

definition updatedGridGameTick :: "State \<Rightarrow> Cubes" where
  "updatedGridGameTick s =
     (if isCollide (s\<lparr>currentCubes := generateNewCubes (currentCubes s) 0 1 False\<rparr>)
      then mainGridCubes s @ generateNewCubes (currentCubes s) 0 0 True
      else mainGridCubes s)"

definition updatedGridHardDrop :: "State \<Rightarrow> Cubes" where
  "updatedGridHardDrop s = mainGridCubes s @ generateNewCubes (currentCubes s) 0 (relativeY s) True"

text \<open>
  A state in which a hard drop completes row 19 and lifts the score from 900 to 1000, the
  same state with the piece already lying on row 19, where the next automatic drop merges
  it, and the state that the hard drop returns.
\<close>

definition lineState :: State where
  "lineState =
     \<lparr>gameTick = 40, currentTick = 3, dropTick = 50,
      currentCubes = createCyanTetromino MAIN_GRID_X (- 1) ''c'',
      mainGridCubes = map (\<lambda>px. \<lparr>cube_x = px, cube_y = 19, colour = Blue, cube_id = coordId px 19\<rparr>)
                          [0, 1, 2, 7, 8, 9],
      previousMainGridCubes = [],
      previewGridCubes = createCyanTetromino PREVIEW_GRID_X PREVIEW_GRID_Y ''p'',
      holdOnCooldown = False, updateGrid = False, rng = 5,
      level = 1, score = 900, linesCleared = 9, highScore = 900, gameEnd = False\<rparr>"

definition tickState :: State where
  "tickState = lineState\<lparr>currentCubes := createCyanTetromino MAIN_GRID_X 19 ''c''\<rparr>"

definition lineStateAfter :: State where
  "lineStateAfter =
     \<lparr>gameTick = 40, currentTick = 3, dropTick = 50,
      currentCubes = createCyanTetromino MAIN_GRID_X MAIN_GRID_Y ''c'',
      mainGridCubes = [],
      previousMainGridCubes = mainGridCubes lineState,
      previewGridCubes = createPurpleTetromino PREVIEW_GRID_X PREVIEW_GRID_Y ''p'',
      holdOnCooldown = False, updateGrid = True, rng = 1222621274,
      level = 2, score = 1000, linesCleared = 10, highScore = 1000, gameEnd = False\<rparr>"

text \<open>
  Rotation as the specification words it: every cell is turned by 90 degrees about cell 0,
  \<open>(rx, ry) \<mapsto> (-ry, rx)\<close> relative to the pivot; the rotated cells are shifted right by
  \<open>-minX\<close> when \<open>minX < 0\<close>, else left by \<open>maxX - GRID_WIDTH + 1\<close> when
  \<open>maxX \<ge> GRID_WIDTH\<close>; when the shifted piece collides (a cell on a settled cell, or
  at or below the floor) the piece is returned as it was.
\<close>

definition specRotateCell :: "Cube \<Rightarrow> Cube \<Rightarrow> Cube" where
  "specRotateCell pivot c =
     c\<lparr>cube_x := cube_x pivot - (cube_y c - cube_y pivot),
       cube_y := cube_y pivot + (cube_x c - cube_x pivot)\<rparr>"

definition specWallKick :: "Cubes \<Rightarrow> int" where
  "specWallKick cubes =
     (let minX = Min (set (map cube_x cubes)); maxX = Max (set (map cube_x cubes))
      in if minX < 0 then - minX
         else if maxX \<ge> GRID_WIDTH then - (maxX - GRID_WIDTH + 1)
         else 0)"

definition specColliding :: "Cubes \<Rightarrow> Cubes \<Rightarrow> bool" where
  "specColliding piece settled =
     (\<exists>c \<in> set piece.
        (\<exists>m \<in> set settled. cube_x m = cube_x c \<and> cube_y m = cube_y c) \<or> cube_y c \<ge> GRID_HEIGHT)"

definition specRotate :: "Cubes \<Rightarrow> Cubes \<Rightarrow> Cubes" where
  "specRotate piece settled =
     (let rotated = map (specRotateCell (hd piece)) piece;
          kicked = specTranslate (specWallKick rotated) 0 rotated
      in if specColliding kicked settled then piece else kicked)"

text \<open>
  Two more states: a running game with the yellow square just spawned, and one with an
  upright cyan piece against the right wall.
\<close>

definition yellowState :: State where
  "yellowState = playState\<lparr>currentCubes := createYellowTetromino MAIN_GRID_X MAIN_GRID_Y ''c''\<rparr>"

definition wallState :: State where
  "wallState =
     playState\<lparr>currentCubes :=
       [\<lparr>cube_x = 9, cube_y = 5, colour = Cyan, cube_id = ''c1''\<rparr>,
        \<lparr>cube_x = 9, cube_y = 4, colour = Cyan, cube_id = ''c2''\<rparr>,
        \<lparr>cube_x = 9, cube_y = 6, colour = Cyan, cube_id = ''c3''\<rparr>,
        \<lparr>cube_x = 9, cube_y = 7, colour = Cyan, cube_id = ''c4''\<rparr>]\<rparr>"


section \<open>Collision and validity, in terms of sets\<close>

lemma isCollide_iff:
  "isCollide s =
     (\<exists>c \<in> set (currentCubes s).
        (\<exists>m \<in> set (mainGridCubes s). cube_x m = cube_x c \<and> cube_y m = cube_y c)
        \<or> GRID_HEIGHT \<le> cube_y c)"
  by (auto simp: isCollide_def filter_empty_conv)

lemma isOutOfBound_iff:
  "isOutOfBound s =
     (\<exists>c \<in> set (currentCubes s). cube_x c < 0 \<or> GRID_WIDTH \<le> cube_x c \<or> GRID_HEIGHT \<le> cube_y c)"
  by (auto simp: isOutOfBound_def filter_empty_conv)

lemma generateNewCubes_keep_id:
  "generateNewCubes cubes dx dy False = specTranslate dx dy cubes"
  by (simp add: generateNewCubes_def specTranslate_def)

lemma isValid_iff:
  "isValid (s\<lparr>currentCubes := p\<rparr>) = specValidPlacement p (mainGridCubes s) (gameEnd s)"
  unfolding isValid_def isCollide_iff isOutOfBound_iff specValidPlacement_def
  by (simp add: not_le not_less) blast


section \<open>The generator\<close>

text \<open>
  What holds of \<open>hash\<close> for every seed that is not negative: while the sum stays below
  \<open>2^53\<close> (seeds up to 8162278) no rounding happens and the value is the exact linear
  congruential one; for larger seeds the value is still an integer from 0 to \<open>2^31 - 1\<close>,
  and \<open>scale\<close> of it lies between 0 and 6.
\<close>

lemma bitLength_le: "n < 2 ^ k \<Longrightarrow> bitLength n \<le> k"
proof (induction k arbitrary: n)
  case 0
  then show ?case by (simp add: bitLength.simps)
next
  case (Suc k)
  show ?case
  proof (cases "n \<le> 0")
    case True
    then show ?thesis by (simp add: bitLength.simps)
  next
    case False
    from Suc.prems have "n div 2 < 2 ^ k" by simp
    from Suc.IH [OF this] False show ?thesis
      by (subst bitLength.simps) simp
  qed
qed

lemma roundDouble_exact: "\<bar>n\<bar> < 2 ^ 53 \<Longrightarrow> roundDouble n = n"
  using bitLength_le [of "\<bar>n\<bar>" 53] by (simp add: roundDouble_def Let_def)

lemma roundDouble_nonneg: "0 \<le> n \<Longrightarrow> 0 \<le> roundDouble n"
  by (auto simp: roundDouble_def Let_def sgn_if pos_imp_zdiv_nonneg_iff
      intro!: mult_nonneg_nonneg add_nonneg_nonneg)

lemma jsRem_nonneg: "0 \<le> a \<Longrightarrow> 0 < b \<Longrightarrow> jsRem a b = a mod b"
  by (simp add: jsRem_def sgn_if)

lemma hash_exact_small:
  assumes "0 \<le> seed" and "seed \<le> 8162278"
  shows "hash seed = (RNG_a * seed + RNG_c) mod RNG_m"
proof -
  have p0: "0 \<le> RNG_a * seed" using assms by simp
  have "RNG_a * seed \<le> RNG_a * 8162278" using assms(2) by (intro mult_left_mono) simp_all
  then have p1: "RNG_a * seed \<le> 9007198206928110" by simp
  from p0 p1 have "\<bar>RNG_a * seed\<bar> < 2 ^ 53" by simp
  then have r1: "roundDouble (RNG_a * seed) = RNG_a * seed" by (rule roundDouble_exact)
  from p0 p1 have "\<bar>RNG_a * seed + RNG_c\<bar> < 2 ^ 53" by simp
  then have r2: "roundDouble (RNG_a * seed + RNG_c) = RNG_a * seed + RNG_c" by (rule roundDouble_exact)
  show ?thesis using p0 by (simp add: hash_def r1 r2 jsRem_nonneg)
qed

lemma hash_scale_range:
  assumes "0 \<le> seed"
  shows "0 \<le> hash seed \<and> hash seed < RNG_m \<and> 0 \<le> scale (hash seed) \<and> scale (hash seed) \<le> 6"
proof -
  have "0 \<le> roundDouble (RNG_a * seed)" using assms by (intro roundDouble_nonneg) simp
  then have "0 \<le> roundDouble (roundDouble (RNG_a * seed) + RNG_c)"
    by (intro roundDouble_nonneg) simp
  then have h: "hash seed = roundDouble (roundDouble (RNG_a * seed) + RNG_c) mod RNG_m"
    by (simp add: hash_def jsRem_nonneg)
  then have "0 \<le> hash seed" "hash seed < RNG_m" by simp_all
  then show ?thesis by (simp add: scale_def jsRem_nonneg)
qed


text \<open>
  C6 (defect of the code). The claim: for every seed from 0 to \<open>2^31 - 1\<close>,
  \<open>hash(seed)\<close> is exactly \<open>(1103515245 * seed + 12345) mod 2^31\<close>. The source computes the
  product in double precision. At the seed 10000000 the product 11035152450000000 is
  above \<open>2^53\<close>; adding 12345 gives the odd number 11035152450012345, which no double
  represents and which is rounded to 11035152450012344. The hash is 634602680, the exact
  linear congruential value is 634602681.
\<close>

theorem hash_differs_from_exact_lcg:
  "hash 10000000 = 634602680 \<and>
   (RNG_a * 10000000 + RNG_c) mod RNG_m = 634602681 \<and>
   roundDouble (RNG_a * 10000000 + RNG_c) = RNG_a * 10000000 + RNG_c - 1"
  by code_simp

section \<open>Hard drop\<close>

text \<open>
  C2 (defect of the code). The claim: a hard drop moves the piece down by exactly the
  minimum over its occupied columns of the free-fall distance of that column. In the
  state after the first spawn of a game whose first piece is cyan (seed 6), the grid is
  empty and the flat piece lies on row \<open>-2\<close>: every column can fall 21 rows, to row 19.
  The source starts its minimum at \<open>GRID_HEIGHT = 20\<close>, moves the piece by 20 and
  settles it on row 18, one row above the floor.
\<close>

theorem HardDrop_stops_above_floor:
  "case_sum (\<lambda>e. None)
     (\<lambda>s. Some (map (\<lambda>c. (cube_x c, cube_y c)) (currentCubes s), mainGridCubes s, gameEnd s,
                 specHardDropDistance (currentCubes s) (mainGridCubes s), relativeY s,
                 case_sum (\<lambda>e. []) (\<lambda>s'. map (\<lambda>c. (cube_x c, cube_y c)) (mainGridCubes s'))
                   (HardDrop_apply s)))
     (run dropTickLevel1 (initialState 6) firstSpawnActions)
   = Some ([(4, - 2), (3, - 2), (5, - 2), (6, - 2)], [], False, 21, 20,
           [(4, 18), (3, 18), (5, 18), (6, 18)])"
  by code_simp

section \<open>Reachable states\<close>

text \<open>
  C7 (defect of the code). The claim: in every state reachable from the initial state a
  settled cell has \<open>y < 0\<close> only when \<open>gameEnd\<close> is true. With the seed 10941433 the first
  seven pieces are cyan and the eighth is yellow. After \<open>towerActions\<close> the game is over
  with the settled cell \<open>(0, -1)\<close>. The hard drop that follows, in the game-over state,
  would complete row 19; the source keeps the settled grid, but recomputes \<open>gameEnd\<close> from
  the grid it discards, where the cleared row has moved the cell to row 0. The state it
  returns has \<open>gameEnd = false\<close>, the settled cell \<open>(0, -1)\<close> and 100 points.
\<close>

theorem gameEnd_revived_with_cell_above_grid:
  "case_sum (\<lambda>e. None)
     (\<lambda>s. Some (gameEnd s, score s,
                 map (\<lambda>c. (cube_x c, cube_y c)) (filter (\<lambda>c. cube_y c < 0) (mainGridCubes s))))
     (run dropTickLevel1 (initialState 10941433) towerActions) = Some (True, 0, [(0, - 1)])
   \<and>
   case_sum (\<lambda>e. None)
     (\<lambda>s. Some (gameEnd s, score s,
                 map (\<lambda>c. (cube_x c, cube_y c)) (filter (\<lambda>c. cube_y c < 0) (mainGridCubes s))))
     (run dropTickLevel1 (initialState 10941433) reviveActions) = Some (False, 100, [(0, - 1)])"
  by code_simp


section \<open>Line clearing\<close>

lemma map_zip_upt:
  "map (\<lambda>(i, r). h i r) (zip [0 ..< n] (map g [0 ..< n])) = map (\<lambda>i. h i (g i)) [0 ..< n]"
  by (rule nth_equalityI) simp_all

lemma convertTo2D_rows:
  "convertTo2D cubes = map (\<lambda>i. filter (\<lambda>c. cube_y c = int i) cubes) [0 ..< 20]"
proof (induction cubes rule: rev_induct)
  case Nil
  show ?case by (simp add: convertTo2D_def map_replicate_const)
next
  case (snoc a cubes)
  let ?g = "\<lambda>i. filter (\<lambda>c. cube_y c = int i) cubes"
  have "convertTo2D (cubes @ [a]) =
        map (\<lambda>(index, row). if int index = cube_y a then row @ [a] else row)
          (List.enumerate 0 (convertTo2D cubes))"
    by (simp add: convertTo2D_def)
  also have "\<dots> = map (\<lambda>(index, row). if int index = cube_y a then row @ [a] else row)
          (zip [0 ..< 20] (map ?g [0 ..< 20]))"
    by (simp add: snoc.IH enumerate_eq_zip)
  also have "\<dots> = map (\<lambda>i. if int i = cube_y a then ?g i @ [a] else ?g i) [0 ..< 20]"
    by (rule map_zip_upt)
  also have "\<dots> = map (\<lambda>i. filter (\<lambda>c. cube_y c = int i) (cubes @ [a])) [0 ..< 20]"
    by (rule map_cong) auto
  finally show ?case .
qed

lemma filter_map_marked:
  "filter (\<lambda>r. r \<noteq> - 1) (map (\<lambda>i. if P i then int i else - 1) xs) = map int (filter P xs)"
  by (induction xs) auto

lemma findLinesToClear_rows:
  "findLinesToClear (convertTo2D cubes) =
     map int (filter (\<lambda>i. rowCount cubes (int i) = 10) [0 ..< 20])"
proof -
  let ?g = "\<lambda>i. filter (\<lambda>c. cube_y c = int i) cubes"
  have row0: "cube_y (?g i ! 0) = int i" if "length (?g i) = 10" for i
  proof -
    from that have "?g i ! 0 \<in> set (?g i)" by (intro nth_mem) simp
    then show ?thesis by simp
  qed
  have "map (\<lambda>row. if int (length row) = GRID_WIDTH then cube_y (row ! 0) else - 1) (map ?g [0 ..< 20])
        = map (\<lambda>i. if rowCount cubes (int i) = 10 then int i else - 1) [0 ..< 20]"
    unfolding map_map by (rule map_cong) (auto simp: rowCount_def row0)
  then show ?thesis
    by (simp only: findLinesToClear_def convertTo2D_rows filter_map_marked)
qed

lemma findLinesToClear_sorted: "sorted_wrt (<) (findLinesToClear (convertTo2D cubes))"
proof -
  have "sorted_wrt (<) (filter (\<lambda>i. rowCount cubes (int i) = 10) [0 ..< 20])"
    by (rule sorted_wrt_filter) simp
  then show ?thesis
    by (simp add: findLinesToClear_rows sorted_wrt_map)
qed

lemma findLinesToClear_full:
  "l \<in> set (findLinesToClear (convertTo2D cubes)) \<Longrightarrow> rowCount cubes l = 10"
  by (auto simp: findLinesToClear_rows)

lemma clearLines_eq:
  "clearLines cubes l =
     map (\<lambda>c. if cube_y c < l
               then c\<lparr>cube_y := cube_y c + 1, cube_id := coordId (cube_x c) (cube_y c + 1)\<rparr>
               else c)
         (filter (\<lambda>c. cube_y c \<noteq> l) cubes)"
  unfolding clearLines_def by (rule map_cong) auto

lemma length_clearLines: "length (clearLines cubes l) + rowCount cubes l = length cubes"
proof -
  have "length (filter (\<lambda>c. cube_y c \<noteq> l) cubes) + length (filter (\<lambda>c. cube_y c = l) cubes)
        = length cubes"
    using sum_length_filter_compl [of "\<lambda>c. cube_y c = l" cubes] by simp
  then show ?thesis by (simp add: clearLines_def rowCount_def)
qed

lemma rowCount_clearLines_above:
  "l < l' \<Longrightarrow> rowCount (clearLines cubes l) l' = rowCount cubes l'"
  by (induction cubes) (auto simp: rowCount_def clearLines_def)

lemma coordOf_clearLines:
  "map coordOf (clearLines cubes l) =
     map (\<lambda>(px, py). (px, if py \<le> l then py + 1 else py))
         (filter (\<lambda>(px, py). py \<noteq> l) (map coordOf cubes))"
  by (induction cubes) (auto simp: clearLines_def coordOf_def)

lemma clearLines_noDuplicateCoords:
  assumes "noDuplicateCoords cubes"
  shows "noDuplicateCoords (clearLines cubes l)"
proof -
  let ?g = "\<lambda>(px :: int, py :: int). (px, if py \<le> l then py + 1 else py)"
  let ?xs = "filter (\<lambda>(px, py). py \<noteq> l) (map coordOf cubes)"
  have d: "distinct ?xs" using assms by (simp add: noDuplicateCoords_def)
  have "inj_on ?g (set ?xs)"
    by (rule inj_onI) (auto split: if_splits)
  with d have "distinct (map ?g ?xs)" by (simp add: distinct_map)
  then show ?thesis by (simp add: noDuplicateCoords_def coordOf_clearLines)
qed

lemma foldl_clearLines_noDuplicateCoords:
  "noDuplicateCoords cubes \<Longrightarrow> noDuplicateCoords (foldl clearLines cubes ls)"
  by (induction ls arbitrary: cubes) (auto intro: clearLines_noDuplicateCoords)

lemma length_foldl_clearLines:
  "sorted_wrt (<) ls \<Longrightarrow> \<forall>l \<in> set ls. rowCount cubes l = 10 \<Longrightarrow>
     length (foldl clearLines cubes ls) + 10 * length ls = length cubes"
proof (induction ls arbitrary: cubes)
  case Nil
  show ?case by simp
next
  case (Cons l ls)
  have s: "sorted_wrt (<) ls" and above: "\<forall>l' \<in> set ls. l < l'"
    using Cons.prems(1) by auto
  have "\<forall>l' \<in> set ls. rowCount (clearLines cubes l) l' = 10"
    using above Cons.prems(2) by (simp add: rowCount_clearLines_above)
  from Cons.IH [OF s this]
  have "length (foldl clearLines (clearLines cubes l) ls) + 10 * length ls
        = length (clearLines cubes l)" .
  moreover have "length (clearLines cubes l) + 10 = length cubes"
    using length_clearLines [of cubes l] Cons.prems(2) by simp
  ultimately show ?case by simp
qed

lemma specCollapse_Nil: "specCollapse [] cubes = cubes"
  by (simp add: specCollapse_def)

lemma specCollapse_Cons:
  assumes "\<forall>l' \<in> set ls. l < l'"
  shows "specCollapse ls (clearLines cubes l) = specCollapse (l # ls) cubes"
proof (induction cubes)
  case Nil
  show ?case by (simp add: specCollapse_def clearLines_def)
next
  case (Cons c cubes)
  have tl: "clearLines (c # cubes) l =
            (if cube_y c = l then [] else
               [if cube_y c \<le> l
                then c\<lparr>cube_y := cube_y c + 1, cube_id := coordId (cube_x c) (cube_y c + 1)\<rparr>
                else c]) @ clearLines cubes l"
    by (simp add: clearLines_def)
  have app: "specCollapse ks (xs @ ys) = specCollapse ks xs @ specCollapse ks ys" for ks xs ys
    by (simp add: specCollapse_def)
  have hd: "specCollapse (l # ls) (c # cubes) = specCollapse (l # ls) [c] @ specCollapse (l # ls) cubes"
    using app [of "l # ls" "[c]" cubes] by simp
  have one: "specCollapse ls (if cube_y c = l then [] else
               [if cube_y c \<le> l
                then c\<lparr>cube_y := cube_y c + 1, cube_id := coordId (cube_x c) (cube_y c + 1)\<rparr>
                else c]) = specCollapse (l # ls) [c]"
  proof (cases "cube_y c = l")
    case True
    then show ?thesis by (simp add: specCollapse_def)
  next
    case ne: False
    show ?thesis
    proof (cases "cube_y c < l")
      case True
      then have "\<forall>l' \<in> set ls. cube_y c + 1 < l' \<and> cube_y c < l'"
        using assms by force
      then have f: "filter (\<lambda>l'. cube_y c + 1 < l') ls = ls" "filter (\<lambda>l'. cube_y c < l') ls = ls"
        by (simp_all add: filter_id_conv)
      have notin: "cube_y c \<notin> set ls" "cube_y c + 1 \<notin> set ls"
        using True assms by auto
      show ?thesis using True ne notin
        by (cases "ls = []") (simp_all add: specCollapse_def Let_def f add.assoc)
    next
      case False
      with ne have gt: "l < cube_y c" by simp
      then show ?thesis using ne
        by (simp add: specCollapse_def Let_def)
    qed
  qed
  show ?case
    unfolding tl app hd Cons.IH one ..
qed

lemma foldl_clearLines_collapse:
  "sorted_wrt (<) ls \<Longrightarrow> foldl clearLines cubes ls = specCollapse ls cubes"
proof (induction ls arbitrary: cubes)
  case Nil
  show ?case by (simp add: specCollapse_Nil)
next
  case (Cons l ls)
  then have "foldl clearLines (clearLines cubes l) ls = specCollapse ls (clearLines cubes l)"
    by simp
  also have "\<dots> = specCollapse (l # ls) cubes"
    using Cons.prems by (intro specCollapse_Cons) simp
  finally show ?case by simp
qed

text \<open>
  C4. For every settled grid without duplicate coordinates and the full rows \<open>ls\<close> that
  the source finds in it: \<open>clearLines\<close> removes the cells of the row, moves every
  remaining cell above it down by one with its identity recomputed from the new
  coordinates, and leaves the cells below untouched; clearing a full row removes exactly
  \<open>GRID_WIDTH\<close> cells and leaves no two cells on one coordinate; the full rows come in
  ascending order, every clear of the fold removes exactly \<open>GRID_WIDTH\<close> cells and keeps
  the coordinates distinct, and the fold is the collapse of all full rows at once.
\<close>

theorem clearLines_collapses_full_rows:
  assumes "noDuplicateCoords cubes" and "ls = findLinesToClear (convertTo2D cubes)"
  shows "(\<forall>l. clearLines cubes l =
              map (\<lambda>c. if cube_y c < l
                        then c\<lparr>cube_y := cube_y c + 1, cube_id := coordId (cube_x c) (cube_y c + 1)\<rparr>
                        else c)
                  (filter (\<lambda>c. cube_y c \<noteq> l) cubes)) \<and>
         (\<forall>l \<in> set ls. length (clearLines cubes l) + nat GRID_WIDTH = length cubes \<and>
                         noDuplicateCoords (clearLines cubes l)) \<and>
         (\<forall>k \<le> length ls.
            length (foldl clearLines cubes (take k ls)) + nat GRID_WIDTH * k = length cubes \<and>
            noDuplicateCoords (foldl clearLines cubes (take k ls))) \<and>
         sorted_wrt (<) ls \<and>
         foldl clearLines cubes ls = specCollapse ls cubes"
proof -
  have s: "sorted_wrt (<) ls" using assms(2) by (simp add: findLinesToClear_sorted)
  have full: "\<forall>l \<in> set ls. rowCount cubes l = 10"
    using assms(2) by (simp add: findLinesToClear_full)
  have one: "\<forall>l \<in> set ls. length (clearLines cubes l) + nat GRID_WIDTH = length cubes \<and>
                         noDuplicateCoords (clearLines cubes l)"
  proof
    fix l assume "l \<in> set ls"
    with full have "rowCount cubes l = 10" by simp
    with length_clearLines [of cubes l] clearLines_noDuplicateCoords [OF assms(1), of l]
    show "length (clearLines cubes l) + nat GRID_WIDTH = length cubes \<and>
                         noDuplicateCoords (clearLines cubes l)" by simp
  qed
  have pre: "\<forall>k \<le> length ls.
            length (foldl clearLines cubes (take k ls)) + nat GRID_WIDTH * k = length cubes \<and>
            noDuplicateCoords (foldl clearLines cubes (take k ls))"
  proof (intro allI impI)
    fix k assume k: "k \<le> length ls"
    have "sorted_wrt (<) (take k ls)" using s by (rule sorted_wrt_take)
    moreover have "\<forall>l \<in> set (take k ls). rowCount cubes l = 10"
      using full by (auto dest: in_set_takeD)
    ultimately have "length (foldl clearLines cubes (take k ls)) + 10 * length (take k ls) = length cubes"
      by (rule length_foldl_clearLines)
    with k show "length (foldl clearLines cubes (take k ls)) + nat GRID_WIDTH * k = length cubes \<and>
            noDuplicateCoords (foldl clearLines cubes (take k ls))"
      using foldl_clearLines_noDuplicateCoords [OF assms(1)] by (simp add: min_absorb2)
  qed
  show ?thesis
    using clearLines_eq one pre s foldl_clearLines_collapse [OF s] by blast
qed

theorem clearLines_collapses_full_rows_witness:
  "noDuplicateCoords twoFullRowsGrid \<and>
   findLinesToClear (convertTo2D twoFullRowsGrid) = [17, 19] \<and>
   length twoFullRowsGrid = 22 \<and>
   length (clearLines twoFullRowsGrid 17) = 12 \<and>
   length (foldl clearLines twoFullRowsGrid [17, 19]) = 2 \<and>
   noDuplicateCoords (foldl clearLines twoFullRowsGrid [17, 19]) \<and>
   foldl clearLines twoFullRowsGrid [17, 19] =
     [\<lparr>cube_x = 3, cube_y = 19, colour = Red, cube_id = ''x3y19''\<rparr>,
      \<lparr>cube_x = 5, cube_y = 18, colour = Blue, cube_id = ''x5y18''\<rparr>]"
proof -
  have d: "noDuplicateCoords twoFullRowsGrid" by code_simp
  have l: "[17, 19] = findLinesToClear (convertTo2D twoFullRowsGrid)" by code_simp
  have n: "length twoFullRowsGrid = 22" by code_simp
  have c: "specCollapse [17, 19] twoFullRowsGrid =
     [\<lparr>cube_x = 3, cube_y = 19, colour = Red, cube_id = ''x3y19''\<rparr>,
      \<lparr>cube_x = 5, cube_y = 18, colour = Blue, cube_id = ''x5y18''\<rparr>]" by code_simp
  note t = clearLines_collapses_full_rows [OF d l]
  from t have t2: "\<forall>l \<in> set [17, 19 :: int].
      length (clearLines twoFullRowsGrid l) + nat GRID_WIDTH = length twoFullRowsGrid" by blast
  from t have t3: "\<forall>k \<le> length [17, 19 :: int].
      length (foldl clearLines twoFullRowsGrid (take k [17, 19])) + nat GRID_WIDTH * k
        = length twoFullRowsGrid \<and>
      noDuplicateCoords (foldl clearLines twoFullRowsGrid (take k [17, 19]))" by blast
  from t have e: "foldl clearLines twoFullRowsGrid [17, 19] = specCollapse [17, 19] twoFullRowsGrid"
    by blast
  from t2 n have a: "length (clearLines twoFullRowsGrid 17) = 12" by simp
  from t3 have "length (foldl clearLines twoFullRowsGrid (take 2 [17, 19])) + nat GRID_WIDTH * 2
        = length twoFullRowsGrid \<and>
      noDuplicateCoords (foldl clearLines twoFullRowsGrid (take 2 [17, 19]))"
    by (elim allE [of _ "2::nat"]) simp
  with n have b: "length (foldl clearLines twoFullRowsGrid [17, 19]) = 2"
       "noDuplicateCoords (foldl clearLines twoFullRowsGrid [17, 19])"
    by simp_all
  show ?thesis using d l [symmetric] n a b e c by simp
qed


section \<open>Score and level\<close>

lemma int_div_eq_iff:
  fixes i k q :: int
  assumes "0 < k"
  shows "(i div k = q) = (q * k \<le> i \<and> i < (q + 1) * k)"
proof
  assume "i div k = q"
  then have "i = q * k + i mod k" by (metis mult_div_mod_eq mult.commute)
  moreover have "0 \<le> i mod k" "i mod k < k" using assms by simp_all
  ultimately show "q * k \<le> i \<and> i < (q + 1) * k" by (simp add: algebra_simps)
next
  assume a: "q * k \<le> i \<and> i < (q + 1) * k"
  then have "0 \<le> i - q * k" "i - q * k < k" by (simp_all add: algebra_simps)
  then have "(i - q * k) div k = 0" by (simp add: div_pos_pos_trivial)
  moreover have "(i - q * k) div k = i div k - q"
    using assms div_mult_self1 [of k i "- q"] by simp
  ultimately show "i div k = q" by simp
qed

lemma level_arith:
  fixes sc :: int
  shows "(sc div 1000 + 1 = 1) = (0 \<le> sc \<and> sc < 1000)"
    and "(sc div 1000 + 1 = 2) = (1000 \<le> sc \<and> sc < 2000)"
    and "(2 \<le> sc div 1000 + 1) = (1000 \<le> sc)"
  using int_div_eq_iff [of 1000 sc 0] int_div_eq_iff [of 1000 sc 1] pos_imp_zdiv_pos_iff [of 1000 sc]
  by auto

lemma foldl_clearLines_guard:
  "(if 0 < length ls then foldl clearLines upd ls else upd) = foldl clearLines upd ls"
  by (cases ls) simp_all

lemma GameTick_landing:
  assumes "GameTick_apply s = Inr s'"
  shows "score s' = score s + 100 * int (length (findLinesToClear (convertTo2D (updatedGridGameTick s))))"
    and "linesCleared s' = linesCleared s + int (length (findLinesToClear (convertTo2D (updatedGridGameTick s))))"
    and "level s' = score s' div 1000 + 1"
    and "\<not> gameEnd s \<longrightarrow> mainGridCubes s' =
            foldl clearLines (updatedGridGameTick s) (findLinesToClear (convertTo2D (updatedGridGameTick s)))"
proof -
  let ?should = "shouldUpdateGrid (s\<lparr>currentCubes := generateNewCubes (currentCubes s) 0 1 False\<rparr>)"
  note unf = GameTick_apply_def updatedGridGameTick_def [symmetric] foldl_clearLines_guard Let_def
  show "score s' = score s + 100 * int (length (findLinesToClear (convertTo2D (updatedGridGameTick s))))"
    using assms unfolding unf by (cases ?should) (simp_all split: sum.splits; auto)+
  show "linesCleared s' = linesCleared s + int (length (findLinesToClear (convertTo2D (updatedGridGameTick s))))"
    using assms unfolding unf by (cases ?should) (simp_all split: sum.splits; auto)+
  show "level s' = score s' div 1000 + 1"
    using assms unfolding unf by (cases ?should) (simp_all split: sum.splits; auto)+
  show "\<not> gameEnd s \<longrightarrow> mainGridCubes s' =
            foldl clearLines (updatedGridGameTick s) (findLinesToClear (convertTo2D (updatedGridGameTick s)))"
    using assms unfolding unf by (cases ?should) (simp_all split: sum.splits; auto)+
qed

lemma HardDrop_landing:
  assumes "HardDrop_apply s = Inr s'"
  shows "score s' = score s + 100 * int (length (findLinesToClear (convertTo2D (updatedGridHardDrop s))))"
    and "linesCleared s' = linesCleared s + int (length (findLinesToClear (convertTo2D (updatedGridHardDrop s))))"
    and "level s' = score s' div 1000 + 1"
    and "\<not> gameEnd s \<longrightarrow> mainGridCubes s' =
            foldl clearLines (updatedGridHardDrop s) (findLinesToClear (convertTo2D (updatedGridHardDrop s)))"
proof -
  note unf = HardDrop_apply_def updatedGridHardDrop_def [symmetric] foldl_clearLines_guard Let_def
  show "score s' = score s + 100 * int (length (findLinesToClear (convertTo2D (updatedGridHardDrop s))))"
    using assms unfolding unf by (simp split: sum.splits; auto)
  show "linesCleared s' = linesCleared s + int (length (findLinesToClear (convertTo2D (updatedGridHardDrop s))))"
    using assms unfolding unf by (simp split: sum.splits; auto)
  show "level s' = score s' div 1000 + 1"
    using assms unfolding unf by (simp split: sum.splits; auto)
  show "\<not> gameEnd s \<longrightarrow> mainGridCubes s' =
            foldl clearLines (updatedGridHardDrop s) (findLinesToClear (convertTo2D (updatedGridHardDrop s)))"
    using assms unfolding unf by (simp split: sum.splits; auto)
qed

text \<open>
  What holds of a landing step (a \<open>GameTick\<close> or a \<open>HardDrop\<close> that returns a state), with
  \<open>ls\<close> the full rows found in the grid after the merge: the score grows by 100 per row
  of \<open>ls\<close> and the count of cleared lines by their number; the level is
  \<open>floor(score / 1000) + 1\<close>, so it is 1 exactly below 1000 points and reaches 2 exactly
  at 1000. While the game is not over the rows of \<open>ls\<close> are also the rows removed: the
  new settled grid is the merged grid with them cleared, \<open>GRID_WIDTH\<close> cells fewer per
  row. In a game-over state the settled grid is kept instead, and the rows found are not
  removed.
\<close>

lemma landing_score_and_level:
  assumes "(GameTick_apply s = Inr s' \<and> upd = updatedGridGameTick s) \<or>
           (HardDrop_apply s = Inr s' \<and> upd = updatedGridHardDrop s)"
    and "ls = findLinesToClear (convertTo2D upd)"
  shows "score s' = score s + 100 * int (length ls) \<and>
         linesCleared s' = linesCleared s + int (length ls) \<and>
         level s' = score s' div MAX_SCORE_PER_LEVEL + 1 \<and>
         (level s' = 1 \<longleftrightarrow> 0 \<le> score s' \<and> score s' < 1000) \<and>
         (level s' = 2 \<longleftrightarrow> 1000 \<le> score s' \<and> score s' < 2000) \<and>
         (2 \<le> level s' \<longleftrightarrow> 1000 \<le> score s') \<and>
         (\<not> gameEnd s \<longrightarrow>
            mainGridCubes s' = foldl clearLines upd ls \<and>
            length (mainGridCubes s') + nat GRID_WIDTH * length ls = length upd)"
proof -
  have base: "score s' = score s + 100 * int (length ls) \<and>
         linesCleared s' = linesCleared s + int (length ls) \<and>
         level s' = score s' div 1000 + 1 \<and>
         (\<not> gameEnd s \<longrightarrow> mainGridCubes s' = foldl clearLines upd ls)"
    using assms GameTick_landing [of s s'] HardDrop_landing [of s s'] by blast
  have len: "length (foldl clearLines upd ls) + 10 * length ls = length upd"
    using assms(2) by (intro length_foldl_clearLines) (simp_all add: findLinesToClear_sorted findLinesToClear_full)
  from base have lv: "level s' = score s' div 1000 + 1" by simp
  have l1: "(level s' = 1) = (0 \<le> score s' \<and> score s' < 1000)"
    and l2: "(level s' = 2) = (1000 \<le> score s' \<and> score s' < 2000)"
    and l3: "(2 \<le> level s') = (1000 \<le> score s')"
    unfolding lv by (rule level_arith)+
  from base len have grid: "\<not> gameEnd s \<longrightarrow>
            mainGridCubes s' = foldl clearLines upd ls \<and>
            length (mainGridCubes s') + nat GRID_WIDTH * length ls = length upd"
    by simp
  from base l1 l2 l3 grid show ?thesis by blast
qed

lemma landing_score_and_level_example:
  "HardDrop_apply lineState = Inr lineStateAfter \<and>
   findLinesToClear (convertTo2D (updatedGridHardDrop lineState)) = [19] \<and>
   score lineState = 900 \<and> level lineState = 1 \<and> \<not> gameEnd lineState \<and>
   score lineStateAfter = score lineState + 100 * 1 \<and>
   linesCleared lineStateAfter = linesCleared lineState + 1 \<and>
   level lineStateAfter = 2 \<and> 1000 \<le> score lineStateAfter \<and>
   length (mainGridCubes lineStateAfter) + 10 * 1 = length (updatedGridHardDrop lineState) \<and>
   GameTick_apply tickState = Inr (lineStateAfter\<lparr>gameTick := 41\<rparr>) \<and>
   findLinesToClear (convertTo2D (updatedGridGameTick tickState)) = [19] \<and>
   score tickState = 900 \<and> level tickState = 1 \<and>
   score (lineStateAfter\<lparr>gameTick := 41\<rparr>) = score tickState + 100 * 1 \<and>
   level (lineStateAfter\<lparr>gameTick := 41\<rparr>) = 2"
proof -
  have h: "HardDrop_apply lineState = Inr lineStateAfter" by code_simp
  have l: "[19] = findLinesToClear (convertTo2D (updatedGridHardDrop lineState))" by code_simp
  have g: "\<not> gameEnd lineState" "score lineState = 900" "level lineState = 1"
    by (simp_all add: lineState_def)
  have "(GameTick_apply lineState = Inr lineStateAfter \<and>
           updatedGridHardDrop lineState = updatedGridGameTick lineState) \<or>
        (HardDrop_apply lineState = Inr lineStateAfter \<and>
           updatedGridHardDrop lineState = updatedGridHardDrop lineState)"
    using h by simp
  note drop = landing_score_and_level [OF this l]
  have h': "GameTick_apply tickState = Inr (lineStateAfter\<lparr>gameTick := 41\<rparr>)" by code_simp
  have l': "[19] = findLinesToClear (convertTo2D (updatedGridGameTick tickState))" by code_simp
  have g': "score tickState = 900" "level tickState = 1"
    by (simp_all add: tickState_def lineState_def)
  have "(GameTick_apply tickState = Inr (lineStateAfter\<lparr>gameTick := 41\<rparr>) \<and>
           updatedGridGameTick tickState = updatedGridGameTick tickState) \<or>
        (HardDrop_apply tickState = Inr (lineStateAfter\<lparr>gameTick := 41\<rparr>) \<and>
           updatedGridGameTick tickState = updatedGridHardDrop tickState)"
    using h' by simp
  note tick = landing_score_and_level [OF this l']
  from drop g h l [symmetric] have a:
   "HardDrop_apply lineState = Inr lineStateAfter \<and>
   findLinesToClear (convertTo2D (updatedGridHardDrop lineState)) = [19] \<and>
   score lineState = 900 \<and> level lineState = 1 \<and> \<not> gameEnd lineState \<and>
   score lineStateAfter = score lineState + 100 * 1 \<and>
   linesCleared lineStateAfter = linesCleared lineState + 1 \<and>
   level lineStateAfter = 2 \<and> 1000 \<le> score lineStateAfter \<and>
   length (mainGridCubes lineStateAfter) + 10 * 1 = length (updatedGridHardDrop lineState)"
    by auto
  from tick g' h' l' [symmetric] have b:
   "GameTick_apply tickState = Inr (lineStateAfter\<lparr>gameTick := 41\<rparr>) \<and>
   findLinesToClear (convertTo2D (updatedGridGameTick tickState)) = [19] \<and>
   score tickState = 900 \<and> level tickState = 1 \<and>
   score (lineStateAfter\<lparr>gameTick := 41\<rparr>) = score tickState + 100 * 1 \<and>
   level (lineStateAfter\<lparr>gameTick := 41\<rparr>) = 2"
    by auto
  from a b show ?thesis by blast
qed

text \<open>
  C9 (defect of the code). The claim: after every landing step, a hard drop included, the
  score grows by exactly 100 per line cleared in that step. In the game with the seed
  10941433, after \<open>towerActions\<close> the game is over, with score 0, no line cleared, and 28
  settled cells of which 8 lie on row 19. The hard drop that follows clears no line: the
  settled grid it returns is the same, 28 cells with 8 on row 19. Yet the score goes to
  100 and the count of cleared lines to 1, for the row that the discarded grid would have
  completed.
\<close>

theorem HardDrop_scores_without_clearing:
  "case_sum (\<lambda>e. None)
     (\<lambda>s. Some (gameEnd s, score s, linesCleared s,
                 length (mainGridCubes s), rowCount (mainGridCubes s) 19,
                 case_sum (\<lambda>e. None)
                   (\<lambda>s'. Some (score s', linesCleared s', mainGridCubes s' = mainGridCubes s,
                               length (mainGridCubes s'), rowCount (mainGridCubes s') 19))
                   (HardDrop_apply s)))
     (run dropTickLevel1 (initialState 10941433) towerActions)
   = Some (True, 0, 0, 28, 8, Some (100, 1, True, 28, 8))"
  by code_simp

section \<open>Reset\<close>

text \<open>
  C5 (counterexample). The claim: Reset in a game-over state zeroes \<open>dropTick\<close> and
  \<open>level\<close> with the other counters. In \<open>gameOverState\<close> Reset leaves \<open>dropTick\<close> at 50 and
  sets \<open>level\<close> to 1.
\<close>

theorem Reset_keeps_dropTick_and_level_one:
  "gameEnd gameOverState \<and>
   dropTick (Reset_apply gameOverState) = 50 \<and> dropTick (Reset_apply gameOverState) \<noteq> 0 \<and>
   level (Reset_apply gameOverState) = 1 \<and> level (Reset_apply gameOverState) \<noteq> 0"
  by (simp add: Reset_apply_def gameOverState_def)

text \<open>
  C5 (amended). For every state with \<open>gameEnd = true\<close>, Reset sets \<open>gameTick\<close>,
  \<open>currentTick\<close>, \<open>score\<close> and \<open>linesCleared\<close> to 0 and \<open>level\<close> to 1, leaves \<open>dropTick\<close>
  unchanged, empties the active piece and the settled grid (the old grid becomes
  \<open>previousMainGridCubes\<close>), clears \<open>updateGrid\<close> and \<open>gameEnd\<close>, and preserves
  \<open>highScore\<close>, the preview piece, the seed and \<open>holdOnCooldown\<close>. For every state with
  \<open>gameEnd = false\<close>, Reset returns the state unchanged.
\<close>

theorem Reset_apply_frame:
  "(gameEnd s \<longrightarrow>
      gameTick (Reset_apply s) = 0 \<and> currentTick (Reset_apply s) = 0 \<and>
      dropTick (Reset_apply s) = dropTick s \<and>
      score (Reset_apply s) = 0 \<and> level (Reset_apply s) = 1 \<and> linesCleared (Reset_apply s) = 0 \<and>
      currentCubes (Reset_apply s) = [] \<and> mainGridCubes (Reset_apply s) = [] \<and>
      previousMainGridCubes (Reset_apply s) = mainGridCubes s \<and>
      highScore (Reset_apply s) = highScore s \<and>
      previewGridCubes (Reset_apply s) = previewGridCubes s \<and>
      rng (Reset_apply s) = rng s \<and>
      holdOnCooldown (Reset_apply s) = holdOnCooldown s \<and>
      \<not> updateGrid (Reset_apply s) \<and> \<not> gameEnd (Reset_apply s))
   \<and> (\<not> gameEnd s \<longrightarrow> Reset_apply s = s)"
  by (simp add: Reset_apply_def)

theorem Reset_apply_frame_witness:
  "gameEnd gameOverState \<and> gameTick (Reset_apply gameOverState) = 0 \<and>
   dropTick (Reset_apply gameOverState) = 50 \<and> highScore (Reset_apply gameOverState) = 300 \<and>
   rng (Reset_apply gameOverState) = 5 \<and> mainGridCubes (Reset_apply gameOverState) = [] \<and>
   \<not> gameEnd playState \<and> Reset_apply playState = playState"
  using Reset_apply_frame [of gameOverState] Reset_apply_frame [of playState]
  by (simp add: gameOverState_def playState_def)


section \<open>Rotate\<close>

text \<open>
  C3 (counterexample). The claim: for every state, Rotate turns every cell of the active
  piece about cell 0. In \<open>yellowState\<close> the active piece is the yellow square; turning it
  about its cell 0 would move it one column to the left; Rotate returns the state
  unchanged.
\<close>

theorem Rotate_leaves_yellow_piece:
  "map coordOf (currentCubes yellowState) = [(4, - 2), (5, - 2), (4, - 1), (5, - 1)] \<and>
   Rotate_apply yellowState = yellowState \<and>
   map coordOf (specRotate (currentCubes yellowState) (mainGridCubes yellowState))
     = [(4, - 2), (4, - 1), (3, - 2), (3, - 1)]"
  by code_simp

lemma findMinMaxNum_min_max: "findMinMaxNum (a, b) n = (min a n, max b n)"
  by (auto simp: findMinMaxNum_def Let_def min_def max_def)

lemma foldl_findMinMaxNum:
  "foldl (\<lambda>acc cube. findMinMaxNum acc (cube_x cube)) (a, b) cubes
     = (Min (insert a (set (map cube_x cubes))), Max (insert b (set (map cube_x cubes))))"
proof (induction cubes arbitrary: a b)
  case Nil
  show ?case by simp
next
  case (Cons c cubes)
  have "Min (insert (min a (cube_x c)) (set (map cube_x cubes)))
          = Min (insert a (insert (cube_x c) (set (map cube_x cubes))))"
    by (cases "set (map cube_x cubes) = {}") (simp_all add: min.assoc)
  moreover have "Max (insert (max b (cube_x c)) (set (map cube_x cubes)))
          = Max (insert b (insert (cube_x c) (set (map cube_x cubes))))"
    by (cases "set (map cube_x cubes) = {}") (simp_all add: max.assoc)
  ultimately show ?case
    by (simp add: Cons.IH findMinMaxNum_min_max)
qed

lemma wallKick_minMaxX:
  assumes "cubes \<noteq> []" and "minMaxX cubes = (minX, maxX)"
  shows "(if minX < 0 then - minX else if maxX \<ge> GRID_WIDTH then GRID_WIDTH - maxX - 1 else 0)
           = specWallKick cubes"
proof -
  let ?S = "set (map cube_x cubes)"
  have ne: "?S \<noteq> {}" using assms(1) by simp
  have "minX = min 10 (Min ?S)" "maxX = max (- 1) (Max ?S)"
    using assms(2) ne by (simp_all add: minMaxX_def foldl_findMinMaxNum)
  then show ?thesis
    by (simp add: specWallKick_def Let_def min_def max_def del: set_map)
qed

lemma rotated_cells:
  "map (\<lambda>cube. \<lparr>cube_x = fst (calculateRotation (cube_x p, cube_y p) (cube_x cube, cube_y cube)),
                  cube_y = snd (calculateRotation (cube_x p, cube_y p) (cube_x cube, cube_y cube)),
                  colour = colour cube, cube_id = cube_id cube\<rparr>) cubes
     = map (specRotateCell p) cubes"
  by (rule map_cong) (auto simp: calculateRotation_def specRotateCell_def Let_def)

lemma isCollide_spec:
  "isCollide (s\<lparr>currentCubes := p\<rparr>) = specColliding p (mainGridCubes s)"
  by (simp add: isCollide_iff specColliding_def)

text \<open>
  C3 (amended). For every state whose active piece is not empty and whose cell 0 is not
  yellow, Rotate turns every cell about cell 0 by \<open>(rx, ry) \<mapsto> (-ry, rx)\<close>, applies the
  wall kick, and returns the piece as it was before when the kicked piece collides with a
  settled cell (or reaches the floor); the result is never a partially rotated or
  unkicked piece. The render hint is cleared and nothing else changes. For an empty
  piece or a yellow one, Rotate returns the state unchanged.
\<close>

theorem Rotate_apply_spec:
  "(currentCubes s \<noteq> [] \<and> colour (hd (currentCubes s)) \<noteq> Yellow \<longrightarrow>
      Rotate_apply s =
        s\<lparr>currentCubes := specRotate (currentCubes s) (mainGridCubes s), updateGrid := False\<rparr>)
   \<and> (currentCubes s = [] \<or> colour (hd (currentCubes s)) = Yellow \<longrightarrow> Rotate_apply s = s)"
proof (intro conjI impI)
  assume a: "currentCubes s \<noteq> [] \<and> colour (hd (currentCubes s)) \<noteq> Yellow"
  then have n0: "currentCubes s ! 0 = hd (currentCubes s)" by (simp add: hd_conv_nth)
  let ?rot = "map (specRotateCell (hd (currentCubes s))) (currentCubes s)"
  obtain minX maxX where mm: "minMaxX ?rot = (minX, maxX)" by (cases "minMaxX ?rot")
  have ne: "?rot \<noteq> []" using a by simp
  note kick = wallKick_minMaxX [OF ne mm]
  show "Rotate_apply s =
        s\<lparr>currentCubes := specRotate (currentCubes s) (mainGridCubes s), updateGrid := False\<rparr>"
    using a
    unfolding Rotate_apply_def Let_def n0 rotated_cells mm prod.case kick
      generateNewCubes_keep_id isCollide_spec specRotate_def
    by simp
next
  assume "currentCubes s = [] \<or> colour (hd (currentCubes s)) = Yellow"
  then show "Rotate_apply s = s"
    by (auto simp: Rotate_apply_def hd_conv_nth)
qed

theorem Rotate_apply_spec_witness:
  "currentCubes playState \<noteq> [] \<and> colour (hd (currentCubes playState)) \<noteq> Yellow \<and>
   map coordOf (currentCubes playState) = [(4, - 2), (3, - 2), (4, - 1), (5, - 1)] \<and>
   map coordOf (currentCubes (Rotate_apply playState)) = [(4, - 2), (4, - 3), (3, - 2), (3, - 1)] \<and>
   currentCubes wallState \<noteq> [] \<and> colour (hd (currentCubes wallState)) \<noteq> Yellow \<and>
   map coordOf (currentCubes wallState) = [(9, 5), (9, 4), (9, 6), (9, 7)] \<and>
   map coordOf (currentCubes (Rotate_apply wallState)) = [(8, 5), (9, 5), (7, 5), (6, 5)]"
proof -
  have a: "currentCubes playState \<noteq> [] \<and> colour (hd (currentCubes playState)) \<noteq> Yellow"
    and b: "currentCubes wallState \<noteq> [] \<and> colour (hd (currentCubes wallState)) \<noteq> Yellow"
    by code_simp+
  have r: "map coordOf (specRotate (currentCubes playState) (mainGridCubes playState))
             = [(4, - 2), (4, - 3), (3, - 2), (3, - 1)]"
       "map coordOf (specRotate (currentCubes wallState) (mainGridCubes wallState))
             = [(8, 5), (9, 5), (7, 5), (6, 5)]"
    by code_simp+
  have c: "map coordOf (currentCubes playState) = [(4, - 2), (3, - 2), (4, - 1), (5, - 1)]"
       "map coordOf (currentCubes wallState) = [(9, 5), (9, 4), (9, 6), (9, 7)]"
    by code_simp+
  from Rotate_apply_spec [of playState] a
  have p: "Rotate_apply playState =
        playState\<lparr>currentCubes := specRotate (currentCubes playState) (mainGridCubes playState),
                   updateGrid := False\<rparr>" by blast
  from Rotate_apply_spec [of wallState] b
  have w: "Rotate_apply wallState =
        wallState\<lparr>currentCubes := specRotate (currentCubes wallState) (mainGridCubes wallState),
                   updateGrid := False\<rparr>" by blast
  show ?thesis using a b r c by (simp add: p w)
qed


section \<open>The game-over state\<close>












section \<open>MoveLeft, MoveRight, MoveDown\<close>

text \<open>
  C8 (counterexample). The claim: a rejected move returns the state unchanged. In
  \<open>gameOverState\<close> the move to the left is invalid (the game is over) and the state
  returned differs from the input: the render hint, set before, is cleared.
\<close>

theorem Move_clears_render_hint_when_rejected:
  "\<not> specValidPlacement (specTranslate (- 1) 0 (currentCubes gameOverState))
       (mainGridCubes gameOverState) (gameEnd gameOverState) \<and>
   MoveLeft_apply gameOverState \<noteq> gameOverState \<and>
   MoveLeft_apply gameOverState = gameOverState\<lparr>updateGrid := False\<rparr>"
  by (simp add: MoveLeft_apply_def Let_def isValid_def gameOverState_def specValidPlacement_def)

text \<open>
  C8 (amended). For every state, MoveLeft, MoveRight and MoveDown translate the active
  piece by (-1,0), (+1,0) and (0,+1), keeping colours and identities, exactly when the
  translated placement is valid (no cell on a settled cell, every cell inside the walls
  and above the floor, game not over); otherwise the piece is left as it is. In both
  cases the render hint is cleared, nothing else changes, and no fault is raised.
\<close>

theorem Move_apply_spec:
  "MoveLeft_apply s =
     s\<lparr>currentCubes :=
         (if specValidPlacement (specTranslate (- 1) 0 (currentCubes s)) (mainGridCubes s) (gameEnd s)
          then specTranslate (- 1) 0 (currentCubes s) else currentCubes s),
       updateGrid := False\<rparr>
   \<and> MoveRight_apply s =
     s\<lparr>currentCubes :=
         (if specValidPlacement (specTranslate 1 0 (currentCubes s)) (mainGridCubes s) (gameEnd s)
          then specTranslate 1 0 (currentCubes s) else currentCubes s),
       updateGrid := False\<rparr>
   \<and> MoveDown_apply s =
     s\<lparr>currentCubes :=
         (if specValidPlacement (specTranslate 0 1 (currentCubes s)) (mainGridCubes s) (gameEnd s)
          then specTranslate 0 1 (currentCubes s) else currentCubes s),
       updateGrid := False\<rparr>"
  by (simp add: MoveLeft_apply_def MoveRight_apply_def MoveDown_apply_def Let_def
      generateNewCubes_keep_id isValid_iff)

theorem Move_apply_spec_witness:
  "specValidPlacement (specTranslate (- 1) 0 (currentCubes playState)) (mainGridCubes playState) (gameEnd playState)
   \<and> map (\<lambda>c. (cube_x c, cube_y c)) (currentCubes (MoveLeft_apply playState))
       = [(3, - 2), (2, - 2), (3, - 1), (4, - 1)]
   \<and> \<not> specValidPlacement (specTranslate 1 0 (currentCubes gameOverState)) (mainGridCubes gameOverState) (gameEnd gameOverState)
   \<and> MoveRight_apply gameOverState = gameOverState\<lparr>updateGrid := False\<rparr>"
  using Move_apply_spec [of playState] Move_apply_spec [of gameOverState]
  by (simp add: specValidPlacement_def specTranslate_def playState_def gameOverState_def
      createRedTetromino_def createTetromino_def)


section \<open>High score\<close>

lemma GameTick_highScore:
  "GameTick_apply s = Inr s' \<Longrightarrow> highScore s \<le> highScore s' \<and> score s' \<le> highScore s'"
  by (auto simp: GameTick_apply_def Let_def split: if_splits sum.splits)

lemma HardDrop_highScore:
  "HardDrop_apply s = Inr s' \<Longrightarrow> highScore s \<le> highScore s' \<and> score s' \<le> highScore s'"
  by (auto simp: HardDrop_apply_def Let_def split: if_splits sum.splits)

lemma Tick_highScore:
  "Tick_apply cdt s = Inr s' \<Longrightarrow>
     highScore s \<le> highScore s' \<and> (score s \<le> highScore s \<longrightarrow> score s' \<le> highScore s')"
  by (auto simp: Tick_apply_def Let_def split: if_splits dest!: GameTick_highScore)

text \<open>
  From every state the high score does not decrease; Reset, which sets the score to 0,
  keeps the high score above the score when the high score is not negative.
\<close>

lemma reduceState_highScore:
  "reduceState cdt s a = Inr s' \<Longrightarrow>
     highScore s \<le> highScore s' \<and>
     (score s \<le> highScore s \<longrightarrow> (a = Reset \<longrightarrow> 0 \<le> highScore s) \<longrightarrow> score s' \<le> highScore s')"
proof (cases a)
  case Tick
  assume "reduceState cdt s a = Inr s'"
  with Tick show ?thesis using Tick_highScore [of cdt s s'] by simp
next
  case HardDrop
  assume "reduceState cdt s a = Inr s'"
  with HardDrop show ?thesis using HardDrop_highScore [of s s'] by simp
next
  case Reset
  assume "reduceState cdt s a = Inr s'"
  with Reset show ?thesis by (auto simp: Reset_apply_def split: if_splits)
next
  case MoveLeft
  assume "reduceState cdt s a = Inr s'"
  with MoveLeft show ?thesis by (auto simp: MoveLeft_apply_def Let_def)
next
  case MoveRight
  assume "reduceState cdt s a = Inr s'"
  with MoveRight show ?thesis by (auto simp: MoveRight_apply_def Let_def)
next
  case MoveDown
  assume "reduceState cdt s a = Inr s'"
  with MoveDown show ?thesis by (auto simp: MoveDown_apply_def Let_def)
next
  case Rotate
  assume "reduceState cdt s a = Inr s'"
  with Rotate show ?thesis by (auto simp: Rotate_apply_def Let_def split: if_splits prod.splits)
qed

text \<open>
  In the states reachable from the initial state the scores are never negative and the
  high score is never below the score.
\<close>

lemma GameTick_score_nonneg:
  "GameTick_apply s = Inr s' \<Longrightarrow> 0 \<le> score s \<Longrightarrow> 0 \<le> score s'"
  by (auto simp: GameTick_apply_def Let_def split: if_splits sum.splits)

lemma HardDrop_score_nonneg:
  "HardDrop_apply s = Inr s' \<Longrightarrow> 0 \<le> score s \<Longrightarrow> 0 \<le> score s'"
  by (auto simp: HardDrop_apply_def Let_def split: if_splits sum.splits)

lemma Tick_score_nonneg:
  "Tick_apply cdt s = Inr s' \<Longrightarrow> 0 \<le> score s \<Longrightarrow> 0 \<le> score s'"
  by (auto simp: Tick_apply_def Let_def split: if_splits dest!: GameTick_score_nonneg)

lemma reduceState_scores:
  assumes "reduceState cdt s a = Inr s'" and "0 \<le> score s \<and> score s \<le> highScore s"
  shows "0 \<le> score s' \<and> score s' \<le> highScore s'"
proof (cases a)
  case Tick
  with assms Tick_score_nonneg [of cdt s s'] Tick_highScore [of cdt s s'] show ?thesis by simp
next
  case HardDrop
  with assms HardDrop_score_nonneg [of s s'] HardDrop_highScore [of s s'] show ?thesis by simp
next
  case Reset
  with assms show ?thesis by (auto simp: Reset_apply_def split: if_splits)
next
  case MoveLeft
  with assms show ?thesis by (auto simp: MoveLeft_apply_def Let_def)
next
  case MoveRight
  with assms show ?thesis by (auto simp: MoveRight_apply_def Let_def)
next
  case MoveDown
  with assms show ?thesis by (auto simp: MoveDown_apply_def Let_def)
next
  case Rotate
  with assms show ?thesis by (auto simp: Rotate_apply_def Let_def split: if_splits prod.splits)
qed

lemma run_scores:
  "run cdt (Inr s) as = Inr s' \<Longrightarrow> 0 \<le> score s \<and> score s \<le> highScore s \<Longrightarrow>
     0 \<le> score s' \<and> score s' \<le> highScore s'"
proof (induction as arbitrary: s)
  case Nil
  then show ?case by simp
next
  case (Cons a as)
  show ?case
  proof (cases "reduceState cdt s a")
    case (Inl e)
    with Cons.prems(1) show ?thesis by (cases as) simp_all
  next
    case (Inr t)
    with Cons.prems(1) have "run cdt (Inr t) as = Inr s'" by simp
    moreover from Inr Cons.prems(2) have "0 \<le> score t \<and> score t \<le> highScore t"
      by (rule reduceState_scores)
    ultimately show ?thesis by (rule Cons.IH)
  qed
qed

lemma reachable_scores:
  assumes "initialState initialRNG = Inr s0" and "run cdt (Inr s0) as = Inr s"
  shows "0 \<le> score s \<and> score s \<le> highScore s"
proof -
  from assms(1) have "score s0 = 0 \<and> highScore s0 = 0"
    by (auto simp: initialState_def split: sum.splits)
  with assms(2) show ?thesis using run_scores [of cdt s0 as s] by simp
qed

text \<open>
  C10. The high score never decreases: for every state and every action (Reset included)
  that returns a state, the new high score is at least the old one. And in every state
  reachable from the initial state, for every action, the high score is at least the
  score after the transition whenever it was before the transition (and it always is).
\<close>

theorem highScore_never_decreases:
  "(reduceState cdt s a = Inr s' \<longrightarrow> highScore s \<le> highScore s') \<and>
   (initialState initialRNG = Inr s0 \<and> run cdt (Inr s0) as = Inr s \<and>
    reduceState cdt s a = Inr s' \<longrightarrow>
      (score s \<le> highScore s \<longrightarrow> score s' \<le> highScore s') \<and>
      score s \<le> highScore s \<and> score s' \<le> highScore s')"
proof -
  have one: "reduceState cdt s a = Inr s' \<longrightarrow> highScore s \<le> highScore s'"
    by (simp add: reduceState_highScore)
  have two: "(score s \<le> highScore s \<longrightarrow> score s' \<le> highScore s') \<and>
      score s \<le> highScore s \<and> score s' \<le> highScore s'"
    if a: "initialState initialRNG = Inr s0 \<and> run cdt (Inr s0) as = Inr s \<and>
      reduceState cdt s a = Inr s'"
  proof -
    from a have r: "0 \<le> score s \<and> score s \<le> highScore s"
      using reachable_scores [of initialRNG s0 cdt as s] by simp
    with a have "0 \<le> score s' \<and> score s' \<le> highScore s'"
      using reduceState_scores [of cdt s a s'] by simp
    with r show ?thesis by simp
  qed
  from one two show ?thesis by blast
qed

theorem highScore_never_decreases_witness:
  "\<exists>s0 s s'. initialState 6 = Inr s0 \<and> run dropTickLevel1 (Inr s0) firstSpawnActions = Inr s \<and>
      reduceState dropTickLevel1 s HardDrop = Inr s' \<and>
      highScore s \<le> highScore s' \<and> score s \<le> highScore s \<and> score s' \<le> highScore s'"
proof -
  have "case initialState 6 of
          Inl e \<Rightarrow> False
        | Inr s0 \<Rightarrow>
           (case run dropTickLevel1 (Inr s0) firstSpawnActions of
              Inl e \<Rightarrow> False
            | Inr s \<Rightarrow> (case reduceState dropTickLevel1 s HardDrop of
                          Inl e \<Rightarrow> False | Inr s' \<Rightarrow> True))"
    by code_simp
  then obtain s0 s s' where h: "initialState 6 = Inr s0"
      "run dropTickLevel1 (Inr s0) firstSpawnActions = Inr s"
      "reduceState dropTickLevel1 s HardDrop = Inr s'"
    by (auto split: sum.splits)
  from highScore_never_decreases [of dropTickLevel1 s HardDrop s' 6 s0 firstSpawnActions] h
  have "highScore s \<le> highScore s' \<and> score s \<le> highScore s \<and> score s' \<le> highScore s'"
    by simp
  with h show ?thesis by blast
qed

end
